theory Spec2Isabelle
  imports Main "HOL-Library.Sublist"
begin

section \<open>Python string operations used by the stub generator\<close>

text \<open>
  Source text is modelled as \<^typ>\<open>string\<close> restricted to ASCII, which is what the C++
  fragments under analysis consist of. Each operation below is the Python \<open>str\<close> method of
  the same name, written out on character lists.
\<close>

definition isspace :: "char \<Rightarrow> bool" where
  "isspace c = (c \<in> set [CHR 0x09, CHR 0x0A, CHR 0x0B, CHR 0x0C, CHR 0x0D,
                           CHR 0x1C, CHR 0x1D, CHR 0x1E, CHR 0x1F, CHR 0x20])"

definition strip :: "string \<Rightarrow> string" where
  "strip s = rev (dropWhile isspace (rev (dropWhile isspace s)))"

definition startswith :: "string \<Rightarrow> string \<Rightarrow> bool" where
  "startswith s p = prefix p s"

definition endswith :: "string \<Rightarrow> string \<Rightarrow> bool" where
  "endswith s p = suffix p s"

fun contains :: "string \<Rightarrow> string \<Rightarrow> bool" where
  "contains [] sub = (sub = [])"
| "contains (c # cs) sub = (prefix sub (c # cs) \<or> contains cs sub)"

definition removeprefix :: "string \<Rightarrow> string \<Rightarrow> string" where
  "removeprefix s p = (if prefix p s then drop (length p) s else s)"

definition removesuffix :: "string \<Rightarrow> string \<Rightarrow> string" where
  "removesuffix s p = (if suffix p s then take (length s - length p) s else s)"

definition startswithAny :: "string \<Rightarrow> string list \<Rightarrow> bool" where
  "startswithAny s ps = list_ex (startswith s) ps"

definition endswithAny :: "string \<Rightarrow> string list \<Rightarrow> bool" where
  "endswithAny s ps = list_ex (endswith s) ps"

definition containsAny :: "string \<Rightarrow> string list \<Rightarrow> bool" where
  "containsAny s ps = list_ex (contains s) ps"

definition isIdStart :: "char \<Rightarrow> bool" where
  "isIdStart c = (c \<in> set ''_abcdefghijklmnopqrstuvwxyzABCDEFGHIJKLMNOPQRSTUVWXYZ'')"

definition isIdChar :: "char \<Rightarrow> bool" where
  "isIdChar c = (isIdStart c \<or> c \<in> set ''0123456789'')"

fun isidentifier :: "string \<Rightarrow> bool" where
  "isidentifier [] = False"
| "isidentifier (c # cs) = (isIdStart c \<and> list_all isIdChar cs)"

definition isupper :: "char \<Rightarrow> bool" where
  "isupper c = (c \<in> set ''ABCDEFGHIJKLMNOPQRSTUVWXYZ'')"

text \<open>\<open>s.split(c, maxsplit=1)[0]\<close>: the text before the first \<open>c\<close>, all of it when there is none.\<close>

definition beforeFirst :: "char \<Rightarrow> string \<Rightarrow> string" where
  "beforeFirst c s = takeWhile (\<lambda>x. x \<noteq> c) s"

text \<open>\<open>s.split(c, maxsplit=1)[1]\<close>, for a string that holds \<open>c\<close>.\<close>

definition afterFirst :: "char \<Rightarrow> string \<Rightarrow> string" where
  "afterFirst c s = tl (dropWhile (\<lambda>x. x \<noteq> c) s)"

text \<open>\<open>s[s.rfind(c) + 1:]\<close>: \<open>rfind\<close> gives -1 when \<open>c\<close> is absent, so the slice is all of \<open>s\<close>.\<close>

definition afterLast :: "char \<Rightarrow> string \<Rightarrow> string" where
  "afterLast c s = rev (takeWhile (\<lambda>x. x \<noteq> c) (rev s))"

text \<open>\<open>s.split(sep)\<close> for a separator of two characters (the code splits at \<open>::\<close>).\<close>

fun split2 :: "char \<Rightarrow> char \<Rightarrow> string \<Rightarrow> string \<Rightarrow> string list" where
  "split2 a b acc [] = [rev acc]"
| "split2 a b acc [c] = [rev (c # acc)]"
| "split2 a b acc (c # d # cs) =
     (if c = a \<and> d = b then rev acc # split2 a b [] cs else split2 a b (c # acc) (d # cs))"

text \<open>\<open>sep.join(xs)\<close>.\<close>

fun join :: "string \<Rightarrow> string list \<Rightarrow> string" where
  "join sep [] = []"
| "join sep [x] = x"
| "join sep (x # y # ys) = x @ sep @ join sep (y # ys)"

text \<open>Truthiness of an optional string (a regex group that is \<open>None\<close> or empty is falsy).\<close>

fun truthy :: "string option \<Rightarrow> bool" where
  "truthy None = False"
| "truthy (Some s) = (s \<noteq> [])"

section \<open>Ordered string sets and resolved types\<close>

text \<open>
  \<open>OrderedStrSet.add\<close>: a new member goes to the end, a member already present keeps its
  place. Building a set from an iterable adds its items from left to right.
\<close>

definition ordered_add :: "string list \<Rightarrow> string \<Rightarrow> string list" where
  "ordered_add xs x = (if x \<in> set xs then xs else xs @ [x])"

definition OrderedStrSet :: "string list \<Rightarrow> string list" where
  "OrderedStrSet xs = foldl ordered_add [] xs"

text \<open>
  \<open>RetType = str | UnionArgument | AnyValue\<close>. A parametrised type such as
  \<open>tuple[float, float]\<close> is a \<open>str\<close> in the source, so it is a \<open>Str\<close> here.
\<close>

datatype RetType = AnyValue | Str string | UnionArgument "string list"

text \<open>
  Modelled from the spec: \<open>UnionArgument\<close> (arg_types.py) is not among the source files. The
  spec's data model makes a union ordered-unique with insertion order preserved and
  duplicates collapsed, and base.py uses it as an ordered set of strings
  (\<open>varType.add('None')\<close>, iteration, truthiness).
\<close>

definition mkUnionArgument :: "string list \<Rightarrow> RetType" where
  "mkUnionArgument xs = UnionArgument (OrderedStrSet xs)"

datatype error =
    InvalidReturnType
  | NotImplementedError
  | IndexError
  | StopIteration
  | RecursionError

type_synonym requiredImports = "string list"

type_synonym 'a res = "(error + 'a) \<times> requiredImports"

text \<open>
  A call of \<open>self.getExpressionType(varText, endPos, onlyLiteral=...)\<close>: the required imports
  before the call, the three arguments, and the result with the required imports after it.
\<close>

type_synonym resolve = "requiredImports \<Rightarrow> string \<Rightarrow> nat \<Rightarrow> bool \<Rightarrow> RetType res"

section \<open>What the source files take from the rest of the package\<close>

text \<open>
  One match of the declaration regex of \<open>_findVariableType\<close>: its named groups
  (\<open>None\<close> when a group did not take part) and the offsets \<open>match.start()\<close>,
  \<open>match.end()\<close>.
\<close>

record decMatch =
  m_directive :: "string option"
  m_type :: "string option"
  m_val :: "string option"
  m_args :: "string option"
  m_start :: nat
  m_end :: nat

text \<open>
  The functions and classes that base.py, full.py and method.py import but that are not
  among the source files, and the regex engine, are parameters of the model:
  \<^item> \<open>genFuncArgs\<close>, \<open>generateExpressionUntilChar\<close> (called with \<open>0, ',', '(', ')'\<close>),
    \<open>removeQuote\<close>, \<open>parsePyBuildValues\<close>: the scanners, as the lists and values they produce;
  \<^item> \<open>getClassWithModulesFromPointer\<close>, \<open>getClassName\<close>, \<open>getModuleName\<close>: the class registry;
  \<^item> \<open>strAnyValue\<close>, \<open>strUnionArgument\<close>: what \<open>str()\<close> gives for \<open>AnyValue\<close> and for a union;
  \<^item> \<open>anyValueIsItsValue\<close>: whether the pattern \<open>case AnyValue.value\<close> matches \<open>AnyValue\<close>;
  \<^item> \<open>variableDecFinditer name body endPos\<close>: the matches of the declaration regex for
    \<open>name\<close> in \<open>body\<close> up to \<open>endPos\<close>, in text order;
  \<^item> \<open>assignmentFinditer name body startPos endPos\<close>: group 1 of each match of the
    assignment regex;
  \<^item> \<open>returnFinditer body\<close>: group 1 and \<open>match.end()\<close> of each match of \<open>REG_RETURN\<close>;
  \<^item> \<open>getInnerType\<close>: the hook that the container mixins of full.py override; it is handed
    the resolver so that an override can call \<open>self.getExpressionType\<close>;
  \<^item> \<open>UnionArguments\<close>, \<open>unionImports\<close>, \<open>RawRepr\<close>: the items and the \<open>imports\<close> of the
    union that \<open>getReturnType\<close> builds, and \<open>RawRepr(*items)\<close>, where \<open>None\<close> stands for
    \<open>Signature.empty\<close> and \<open>Some s\<close> for an object whose \<open>str()\<close> is \<open>s\<close>.
  An exception raised inside one of these is outside the model.
\<close>

record helpers =
  genFuncArgs :: "string \<Rightarrow> string list"
  generateExpressionUntilChar :: "string \<Rightarrow> string list"
  removeQuote :: "string \<Rightarrow> string"
  parsePyBuildValues :: "string \<Rightarrow> RetType"
  getClassWithModulesFromPointer :: "string \<Rightarrow> string"
  getClassName :: "string \<Rightarrow> string"
  getModuleName :: "string \<Rightarrow> string option"
  strAnyValue :: string
  strUnionArgument :: "string list \<Rightarrow> string"
  anyValueIsItsValue :: bool
  variableDecFinditer :: "string \<Rightarrow> string \<Rightarrow> nat \<Rightarrow> decMatch list"
  assignmentFinditer :: "string \<Rightarrow> string \<Rightarrow> nat \<Rightarrow> nat \<Rightarrow> string list"
  returnFinditer :: "string \<Rightarrow> (string \<times> nat) list"
  getInnerType :: "resolve \<Rightarrow> requiredImports \<Rightarrow> string \<Rightarrow> string \<Rightarrow> nat \<Rightarrow> nat \<Rightarrow> nat \<Rightarrow> RetType res"
  UnionArguments :: "RetType list \<Rightarrow> string list"
  unionImports :: "RetType list \<Rightarrow> string list"
  RawRepr :: "string list \<Rightarrow> string option"

text \<open>
  The fields of a \<open>ReturnTypeConverterBase\<close> that do not change. \<open>requiredImports\<close>, the
  one field the resolution mutates, is passed in and returned by every function below.
  \<open>classNameWithModule\<close> is a \<open>str\<close> as \<open>__init__\<close> declares it, so the \<open>raise TypeError\<close>
  of \<open>_findVariableType\<close> (taken when it is \<open>None\<close>) has no branch here.
\<close>

record converter =
  functionBody :: string
  classNameWithModule :: string
  functionName :: string

definition className :: "helpers \<Rightarrow> converter \<Rightarrow> string" where
  "className env self = getClassName env (classNameWithModule self)"

definition str_of :: "helpers \<Rightarrow> RetType \<Rightarrow> string" where
  "str_of env r =
     (case r of Str s \<Rightarrow> s | AnyValue \<Rightarrow> strAnyValue env | UnionArgument u \<Rightarrow> strUnionArgument env u)"

text \<open>A resolver's value wrapped for the dispatch loop, where \<open>None\<close> means "no match".\<close>

definition some :: "RetType res \<Rightarrow> RetType option res" where
  "some r = (case r of (Inl e, st) \<Rightarrow> (Inl e, st) | (Inr v, st) \<Rightarrow> (Inr (Some v), st))"

definition found :: "string \<Rightarrow> requiredImports \<Rightarrow> RetType option res" where
  "found s st = (Inr (Some (Str s)), st)"

section \<open>base.py: the resolvers\<close>

text \<open>
  Modelled from the spec: \<open>StrWrapper\<close> (str_wrapper.py) is not among the source files. By
  section 4.1 of the spec its patterns are exact-literal equality (\<open>case 'x'\<close>), prefix match
  (\<open>case StrWrapper('x')\<close>), suffix match (\<open>end='x'\<close>) and substring containment
  (\<open>contain='x'\<close>); they are \<open>=\<close>, \<^const>\<open>startswith\<close>, \<^const>\<open>endswith\<close> and
  \<^const>\<open>contains\<close> below. The cases of a \<open>match\<close> are tried in the order of the source.
\<close>

definition removePrefixes :: "string \<Rightarrow> string" where
  "removePrefixes varText0 =
     (let varText = strip varText0;
          varText =
            (if startswithAny varText [''new_reference_to('', ''Py::new_reference_to('']
                \<and> endswith varText '')''
             then strip (removesuffix
                    (removeprefix (removeprefix varText ''Py::'') ''new_reference_to('') '')'')
             else varText)
      in strip (removeprefix (strip (removeprefix varText ''const'')) ''*''))"

definition removeSuffix :: "string \<Rightarrow> string" where
  "removeSuffix varText = strip (removesuffix (strip (removesuffix varText ''*'')) ''&'')"

definition matchLiterals :: "requiredImports \<Rightarrow> string \<Rightarrow> bool \<Rightarrow> RetType option res" where
  "matchLiterals st varText onlyLiteral =
     (if varText = [] then (Inr (Some AnyValue), st)
      else if varText \<in> set [''0'', ''-1'', ''NULL'', ''nullptr'', ''0L''] then
        (if onlyLiteral then (Inr (Some AnyValue), st) else (Inl InvalidReturnType, st))
      else (Inr None, st))"

text \<open>
  The list comprehension of the \<open>PyTuple_Pack\<close> case: each argument is resolved in turn, with
  \<open>onlyLiteral\<close> at its default; the first exception ends it.
\<close>

fun mapExpressionType :: "resolve \<Rightarrow> requiredImports \<Rightarrow> string list \<Rightarrow> nat \<Rightarrow> RetType list res" where
  "mapExpressionType rec st [] endPos = (Inr [], st)"
| "mapExpressionType rec st (v # vs) endPos =
     (case rec st v endPos False of
        (Inl e, st') \<Rightarrow> (Inl e, st')
      | (Inr r, st') \<Rightarrow>
          (case mapExpressionType rec st' vs endPos of
             (Inl e, st'') \<Rightarrow> (Inl e, st'')
           | (Inr rs, st'') \<Rightarrow> (Inr (r # rs), st'')))"

definition matchPyType ::
  "resolve \<Rightarrow> helpers \<Rightarrow> requiredImports \<Rightarrow> string \<Rightarrow> nat \<Rightarrow> bool \<Rightarrow> RetType option res" where
  "matchPyType rec env st varText endPos onlyLiteral =
     (if varText = ''Py::Object()'' then found ''object'' st
      else if varText \<in> set [''Py_None'', ''Py::None()'', ''Py_Return''] then found ''None'' st
      else if startswithAny varText [''Py::Boolean'', ''PyBool_From'', ''Py::True'', ''Py::False'']
        then found ''bool'' st
      else if startswithAny varText
          [''Py::Long'', ''PyLong_From'', ''Py::Int'', ''PyInt_From'', ''PYINT_FROMLONG'', ''int'']
        then found ''int'' st
      else if startswithAny varText [''Py::Float'', ''PyFloat_From''] then found ''float'' st
      else if startswithAny varText [''Py::List'', ''PyList_New''] then found ''list'' st
      else if startswithAny varText [''Py::Dict'', ''PyDict_New''] then found ''dict'' st
      else if startswith varText ''Py::Callable'' then found ''typing.Callable'' st
      else if startswith varText ''PyByteArray_From'' then found ''bytes'' st
      else if startswithAny varText
          [''Py::String'', ''PyString_From'', ''PyUnicode_From'', ''Py::Char'',
           ''PyUnicode_DecodeUTF8'', ''PYSTRING_FROMSTRING'', ''QString'']
        then found ''str'' st
      else if containsAny varText [''Py_True'', ''Py_False''] then found ''bool'' st
      else if startswith varText ''Py::TupleN'' then
        (if onlyLiteral then found ''tuple'' st
         else some (getInnerType env rec st ''tuple'' varText 0 endPos endPos))
      else if startswith varText ''PyTuple_Pack'' then
        (case mapExpressionType rec st (drop 1 (genFuncArgs env varText)) endPos of
           (Inl e, st') \<Rightarrow> (Inl e, st')
         | (Inr subTypes, st') \<Rightarrow>
             found (''tuple['' @ join '', '' (map (str_of env) subTypes) @ '']'') st')
      else if startswithAny varText [''Py::Tuple'', ''PyTuple_New''] then found ''tuple'' st
      else (Inr None, st))"

definition matchSpecial :: "requiredImports \<Rightarrow> string \<Rightarrow> RetType option res" where
  "matchSpecial st varText =
     (if varText = ''getDocumentObjectPtr()'' then found ''FreeCAD.DocumentObject'' st
      else if startswith varText ''(GetApplication().openDocument('' then found ''FreeCAD.Document'' st
      else (Inr None, st))"

definition extractWidget :: "helpers \<Rightarrow> requiredImports \<Rightarrow> string \<Rightarrow> RetType option res" where
  "extractWidget env st varText =
     (case genFuncArgs env varText of
        [castArg] \<Rightarrow> found (''qtpy.QtWidgets.'' @ ''QWidget'') st
      | [castArg, castType] \<Rightarrow>
          (let widgetType = removeQuote env castType
           in found (''qtpy.QtWidgets.''
                @ (if startswith widgetType ''Q'' then widgetType else ''QWidget'')) st)
      | _ \<Rightarrow> (Inl NotImplementedError, st))"

definition matchQt :: "helpers \<Rightarrow> requiredImports \<Rightarrow> string \<Rightarrow> RetType option res" where
  "matchQt env st varText =
     (if startswith varText ''wrap.fromQObject('' then found ''qtpy.QtCore.QObject'' st
      else if startswith varText ''QWidget'' then found ''qtpy.QtWidgets.QWidget'' st
      else if startswith varText ''wrap.fromQWidget('' then extractWidget env st varText
      else if startswith varText ''wrap.fromQIcon('' then found ''qtpy.QtGui.QIcon'' st
      else (Inr None, st))"

definition index :: "string list \<Rightarrow> nat \<Rightarrow> error + string" where
  "index xs i = (if i < length xs then Inr (xs ! i) else Inl IndexError)"

definition extractPivy :: "helpers \<Rightarrow> requiredImports \<Rightarrow> string \<Rightarrow> RetType option res" where
  "extractPivy env st varText =
     (let withoutPrefix = removeprefix varText ''Base::Interpreter().createSWIGPointerObj'';
          funArgs = genFuncArgs env withoutPrefix
      in case index funArgs 0 of
           Inl e \<Rightarrow> (Inl e, st)
         | Inr a0 \<Rightarrow>
             (case index funArgs 1 of
                Inl e \<Rightarrow> (Inl e, st)
              | Inr a1 \<Rightarrow>
                  (let module = removeQuote env a0; klass = removeQuote env a1
                   in if startswith module ''pivy'' \<and> CHR ''('' \<notin> set klass
                      then found (module @ ''.'' @ strip (removesuffix (removeprefix klass ''_p_'') ''*'')) st
                      else (Inr (Some AnyValue), st))))"

text \<open>The first three lines of \<open>_findClassWithModule\<close>: the registry's name for the class in \<open>text\<close>.\<close>

definition classWithModuleOf :: "helpers \<Rightarrow> string \<Rightarrow> string" where
  "classWithModuleOf env text =
     (let cType = removeprefix (removeprefix text ''Py::asObject(new '') ''new '';
          cType = beforeFirst CHR ''('' cType
      in getClassWithModulesFromPointer env cType)"

definition findClassWithModule ::
  "helpers \<Rightarrow> converter \<Rightarrow> requiredImports \<Rightarrow> string \<Rightarrow> string \<Rightarrow> RetType res" where
  "findClassWithModule env self st text mustDiffer =
     (let classWithModule = classWithModuleOf env text;
          cl = getClassName env classWithModule
      in if cl = className env self then (Inr (Str (classNameWithModule self)), st)
         else if cl = ''PropertyComplexGeoData'' then
           (Inr (mkUnionArgument [''Mesh.MeshObject'', ''Part.Shape'', ''Points.PointKernel'']), st)
         else if classWithModule \<noteq> mustDiffer \<and> truthy (getModuleName env classWithModule) then
           (Inr (Str classWithModule), ordered_add st (the (getModuleName env classWithModule)))
         else (Inr AnyValue, st))"

definition extractBuildValue ::
  "resolve \<Rightarrow> helpers \<Rightarrow> requiredImports \<Rightarrow> string \<Rightarrow> nat \<Rightarrow> RetType res" where
  "extractBuildValue rec env st varText endPos =
     (let funArgs = genFuncArgs env varText
      in case index funArgs 0 of
           Inl e \<Rightarrow> (Inl e, st)
         | Inr a0 \<Rightarrow>
             (let pythonType = parsePyBuildValues env (removeQuote env a0)
              in if pythonType \<noteq> AnyValue then (Inr pythonType, st)
                 else (case index funArgs 1 of
                         Inl e \<Rightarrow> (Inl e, st)
                       | Inr a1 \<Rightarrow> rec st (strip a1) endPos True)))"

definition matchMethodCall ::
  "resolve \<Rightarrow> helpers \<Rightarrow> converter \<Rightarrow> requiredImports \<Rightarrow> string \<Rightarrow> nat \<Rightarrow> RetType option res" where
  "matchMethodCall rec env self st varText endPos =
     (if varText = ''type->tp_new(type, this, nullptr)'' then some (rec st ''type'' endPos False)
      else if varText \<in> set [''this->GetType()'', ''IncRef()''] then found (classNameWithModule self) st
      else if endswith varText ''->copyPyObject()'' then
        some (rec st (removesuffix varText ''->copyPyObject()'') endPos False)
      else if endswith varText ''->c_str()'' then found ''str'' st
      else if startswith varText ''PyRun_String'' then (Inr (Some AnyValue), st)
      else if startswith varText ''Base::Interpreter().createSWIGPointerObj('' then
        extractPivy env st varText
      else if startswithAny varText [''new '', ''Py::asObject(new ''] then
        some (findClassWithModule env self st varText [])
      else if startswith varText (''Py_BuildValue('' @ [CHR 0x22]) then
        some (extractBuildValue rec env st varText endPos)
      else if startswithAny varText [''Py::asObject('', ''Py::Object('', ''createPyObject(''] then
        (case genFuncArgs env varText of
           [] \<Rightarrow> (Inl StopIteration, st)
         | rawReturnVarName # _ \<Rightarrow> some (rec st rawReturnVarName endPos False))
      else if endswith varText ''Py'' \<and> isidentifier varText
              \<and> (case varText of [] \<Rightarrow> False | c # _ \<Rightarrow> isupper c) then
        some (findClassWithModule env self st varText [])
      else if endswithAny varText [''->getPyObject()'', ''.getPyObject()''] then
        (let v = removesuffix (removesuffix (removesuffix
                   (removesuffix varText ''getPyObject()'') ''.'') ''->'') '')''
         in some (rec st (afterLast CHR ''('' v) endPos False))
      else (Inr None, st))"

definition matchFreeCAD ::
  "resolve \<Rightarrow> helpers \<Rightarrow> requiredImports \<Rightarrow> string \<Rightarrow> nat \<Rightarrow> RetType option res" where
  "matchFreeCAD rec env st varText endPos =
     (if startswith varText ''Py::BoundingBox'' then found ''FreeCAD.BoundBox'' st
      else if startswith varText ''Py::Matrix'' then found ''FreeCAD.Matrix'' st
      else if startswith varText ''Py::Rotation'' then found ''FreeCAD.Rotation'' st
      else if startswith varText ''Py::Placement'' then found ''FreeCAD.Placement'' st
      else if startswithAny varText [''Py::Vector2d'', ''Base::Vector2dPy::create(''] then
        found ''FreeCAD.Vector2d'' st
      else if startswith varText ''Py::Vector'' then found ''FreeCAD.Vector'' st
      else if startswith varText ''MainWindowPy::createWrapper'' then found ''FreeCADGui.MainWindowPy'' st
      else if startswithAny varText [''shape2pyshape'', ''Part::shape2pyshape''] then
        found ''Part.Shape'' st
      else if startswith varText ''getShapes<'' then
        (case rec st (beforeFirst CHR ''>'' (removeprefix varText ''getShapes<'')) endPos False of
           (Inl e, st') \<Rightarrow> (Inl e, st')
         | (Inr innerClass, st') \<Rightarrow> found (''list['' @ str_of env innerClass @ '']'') st')
      else (Inr None, st))"

section \<open>base.py: the variable-type search\<close>

definition extractTypeFromMatch :: "decMatch \<Rightarrow> string option" where
  "extractTypeFromMatch m =
     (case m_type m of
        None \<Rightarrow> None
      | Some v \<Rightarrow>
          if v = [] then None
          else if v \<in> set [''return'', ''else''] then None
          else (let v = (if CHR ''<'' \<in> set v \<and> CHR ''>'' \<in> set v
                         then beforeFirst CHR ''>'' (afterFirst CHR ''<'' v) else v)
                in Some (strip (removesuffix (strip (removeprefix v ''const'')) ''*''))))"

text \<open>
  \<open>_genVariableTypeFromRegex\<close>: what the generator yields over the matched assignment
  texts. A union yields its members, a \<open>str\<close> itself, \<open>AnyValue\<close> nothing.
\<close>

fun genVariableTypeFromRegex ::
  "resolve \<Rightarrow> requiredImports \<Rightarrow> string list \<Rightarrow> nat \<Rightarrow> bool \<Rightarrow> string list res" where
  "genVariableTypeFromRegex rec st [] endPos onlyLiteral = (Inr [], st)"
| "genVariableTypeFromRegex rec st (variableTypeText # ms) endPos onlyLiteral =
     (case rec st variableTypeText endPos onlyLiteral of
        (Inl e, st') \<Rightarrow> (Inl e, st')
      | (Inr varType, st') \<Rightarrow>
          (case genVariableTypeFromRegex rec st' ms endPos onlyLiteral of
             (Inl e, st'') \<Rightarrow> (Inl e, st'')
           | (Inr ys, st'') \<Rightarrow>
               (Inr ((case varType of UnionArgument u \<Rightarrow> u | Str s \<Rightarrow> [s] | AnyValue \<Rightarrow> []) @ ys),
                st'')))"

definition getRetTypeFromAssignment ::
  "resolve \<Rightarrow> helpers \<Rightarrow> converter \<Rightarrow> requiredImports \<Rightarrow> string \<Rightarrow> nat \<Rightarrow> nat \<Rightarrow> RetType res" where
  "getRetTypeFromAssignment rec env self st variableName startPos endPos =
     (case genVariableTypeFromRegex rec st
             (assignmentFinditer env variableName (functionBody self) startPos endPos) endPos False of
        (Inl e, st') \<Rightarrow> (Inl e, st')
      | (Inr ys, st') \<Rightarrow>
          (if OrderedStrSet ys \<noteq> [] then (Inr (mkUnionArgument ys), st') else (Inr AnyValue, st')))"

text \<open>
  The body of the loop of \<open>_findVariableType\<close> for a match that is not skipped:
  \<open>varTypeDec\<close> is the type text \<open>_extractTypeFromMatch\<close> gave for it. \<open>declaredType\<close> is
  its first statement (lines 417 to 445), \<open>typeOfDeclaration\<close> the whole body.
\<close>

definition declaredType ::
  "resolve \<Rightarrow> helpers \<Rightarrow> requiredImports \<Rightarrow> nat \<Rightarrow> decMatch \<Rightarrow> string \<Rightarrow> RetType res" where
  "declaredType rec env st endPos declarationMatch varTypeDec =
     (if varTypeDec \<in> set [''auto'', ''PyObject'', ''Py::Object'', ''PyTypeObject'', ''PyObjectBase'']
      then (if truthy (m_val declarationMatch)
            then rec st (the (m_val declarationMatch)) endPos True
            else if varTypeDec \<noteq> ''auto'' \<and> truthy (m_args declarationMatch)
            then (case index (generateExpressionUntilChar env (the (m_args declarationMatch))) 0 of
                    Inl e \<Rightarrow> (Inl e, st)
                  | Inr a0 \<Rightarrow> rec st a0 endPos False)
            else (Inr AnyValue, st))
      else rec st varTypeDec endPos True)"

definition typeOfDeclaration ::
  "resolve \<Rightarrow> helpers \<Rightarrow> converter \<Rightarrow> requiredImports \<Rightarrow> string \<Rightarrow> nat \<Rightarrow> decMatch \<Rightarrow> string
     \<Rightarrow> RetType res" where
  "typeOfDeclaration rec env self st variableName endPos declarationMatch varTypeDec =
     (case declaredType rec env st endPos declarationMatch varTypeDec of
        (Inl e, st1) \<Rightarrow> (Inl e, st1)
      | (Inr varType, st1) \<Rightarrow>
          (case (if varType = Str ''None'' \<or> varType = AnyValue
                 then (case getRetTypeFromAssignment rec env self st1 variableName
                              (m_end declarationMatch) endPos of
                         (Inl e, st2) \<Rightarrow> (Inl e, st2)
                       | (Inr fromAssignment, st2) \<Rightarrow>
                           (Inr (if varType = Str ''None''
                                 then (case fromAssignment of
                                         UnionArgument u \<Rightarrow> UnionArgument (ordered_add u ''None'')
                                       | Str s \<Rightarrow> mkUnionArgument [''None'', s]
                                       | AnyValue \<Rightarrow>
                                           if anyValueIsItsValue env then Str ''None'' else AnyValue)
                                 else fromAssignment), st2))
                 else (Inr varType, st1)) of
             (Inl e, st2) \<Rightarrow> (Inl e, st2)
           | (Inr varType, st2) \<Rightarrow>
               (case varType of
                  Str s \<Rightarrow> getInnerType env rec st2 s variableName
                             (m_start declarationMatch) (m_end declarationMatch) endPos
                | _ \<Rightarrow> (Inr varType, st2))))"

text \<open>
  \<open>for declarationMatch in reversed(matches)\<close>: the argument is the list already reversed.
  A directive and a match without a usable type are skipped; the first match that is
  left returns; with none left the name itself is resolved as a literal.
\<close>

fun findVariableTypeLoop ::
  "resolve \<Rightarrow> helpers \<Rightarrow> converter \<Rightarrow> requiredImports \<Rightarrow> string \<Rightarrow> nat \<Rightarrow> decMatch list
     \<Rightarrow> RetType res" where
  "findVariableTypeLoop rec env self st variableName endPos [] = rec st variableName endPos True"
| "findVariableTypeLoop rec env self st variableName endPos (declarationMatch # ms) =
     (if truthy (m_directive declarationMatch)
      then findVariableTypeLoop rec env self st variableName endPos ms
      else if truthy (extractTypeFromMatch declarationMatch)
      then typeOfDeclaration rec env self st variableName endPos declarationMatch
             (the (extractTypeFromMatch declarationMatch))
      else findVariableTypeLoop rec env self st variableName endPos ms)"

definition findVariableType ::
  "resolve \<Rightarrow> helpers \<Rightarrow> converter \<Rightarrow> requiredImports \<Rightarrow> string \<Rightarrow> nat \<Rightarrow> RetType res" where
  "findVariableType rec env self st variableName endPos =
     (if variableName = ''this'' then (Inr (Str (classNameWithModule self)), st)
      else findVariableTypeLoop rec env self st variableName endPos
             (rev (variableDecFinditer env variableName (functionBody self) endPos)))"

definition matchFinalPossibilities ::
  "resolve \<Rightarrow> helpers \<Rightarrow> converter \<Rightarrow> requiredImports \<Rightarrow> string \<Rightarrow> nat \<Rightarrow> bool \<Rightarrow> RetType option res" where
  "matchFinalPossibilities rec env self st varText endPos onlyLiteral =
     (if onlyLiteral then
        (if list_all isidentifier (split2 CHR '':'' CHR '':'' [] varText)
         then some (findClassWithModule env self st
                      (if endswith varText ''Py'' then varText else varText @ ''Py'') varText)
         else (Inr (Some AnyValue), st))
      else if isidentifier varText then some (findVariableType rec env self st varText endPos)
      else if startswith varText ''('' \<and> endswith varText '')'' then
        some (rec st (removesuffix (removeprefix varText ''('') '')'') endPos onlyLiteral)
      else if contains varText ''=='' then found ''bool'' st
      else (Inr (Some AnyValue), st))"

section \<open>base.py: getExpressionType\<close>

text \<open>
  The loop \<open>for method in (...): if (result := method(...)) is not None: return result\<close>,
  followed by \<open>return AnyValue\<close>. An exception raised by a method leaves the loop.
\<close>

fun firstResult :: "(requiredImports \<Rightarrow> RetType option res) list \<Rightarrow> requiredImports \<Rightarrow> RetType res" where
  "firstResult [] st = (Inr AnyValue, st)"
| "firstResult (method # methods) st =
     (case method st of
        (Inl e, st') \<Rightarrow> (Inl e, st')
      | (Inr None, st') \<Rightarrow> firstResult methods st'
      | (Inr (Some result), st') \<Rightarrow> (Inr result, st'))"

text \<open>
  \<open>getExpressionType\<close> calls itself through its resolvers on texts that need not get
  shorter (a variable is looked up in the whole function body), so Python may run into its
  recursion limit. The first argument is the depth of calls still allowed; at depth 0 the
  call raises \<open>RecursionError\<close>.
\<close>

primrec getExpressionType :: "nat \<Rightarrow> helpers \<Rightarrow> converter \<Rightarrow> resolve" where
  "getExpressionType 0 env self = (\<lambda>st varText endPos onlyLiteral. (Inl RecursionError, st))"
| "getExpressionType (Suc depth) env self = (\<lambda>st varText endPos onlyLiteral.
     (let sw = removeSuffix (removePrefixes varText);
          rec = getExpressionType depth env self
      in firstResult
           [\<lambda>st. matchLiterals st sw onlyLiteral,
            \<lambda>st. matchPyType rec env st sw endPos onlyLiteral,
            \<lambda>st. matchSpecial st sw,
            \<lambda>st. matchQt env st sw,
            \<lambda>st. matchMethodCall rec env self st sw endPos,
            \<lambda>st. matchFreeCAD rec env st sw endPos,
            \<lambda>st. matchFinalPossibilities rec env self st sw endPos onlyLiteral] st))"

section \<open>full.py: the return type of a function body\<close>

text \<open>
  \<open>_genReturnType\<close>, as the list the generator yields over the matches of \<open>REG_RETURN\<close>.
  The \<open>except InvalidReturnType: continue\<close> catches that exception only.
\<close>

fun genReturnType :: "resolve \<Rightarrow> requiredImports \<Rightarrow> (string \<times> nat) list \<Rightarrow> RetType list res" where
  "genReturnType rec st [] = (Inr [], st)"
| "genReturnType rec st (m # ms) =
     (case rec st (fst m) (snd m) False of
        (Inl e, st') \<Rightarrow>
          (if e = InvalidReturnType then genReturnType rec st' ms else (Inl e, st'))
      | (Inr retType, st') \<Rightarrow>
          (case genReturnType rec st' ms of
             (Inl e, st'') \<Rightarrow> (Inl e, st'')
           | (Inr ys, st'') \<Rightarrow>
               (Inr ((case retType of UnionArgument u \<Rightarrow> map Str u | _ \<Rightarrow> [retType]) @ ys), st'')))"

definition getReturnType :: "nat \<Rightarrow> helpers \<Rightarrow> converter \<Rightarrow> requiredImports \<Rightarrow> string option res" where
  "getReturnType depth env self st =
     (case genReturnType (getExpressionType depth env self) st (returnFinditer env (functionBody self)) of
        (Inl e, st') \<Rightarrow> (Inl e, st')
      | (Inr ys, st') \<Rightarrow>
          (Inr (RawRepr env (UnionArguments env ys)), foldl ordered_add st' (unionImports env ys)))"

definition getStrReturnType :: "nat \<Rightarrow> helpers \<Rightarrow> converter \<Rightarrow> requiredImports \<Rightarrow> string res" where
  "getStrReturnType depth env self st =
     (case getReturnType depth env self st of
        (Inl e, st') \<Rightarrow> (Inl e, st')
      | (Inr (Some ret), st') \<Rightarrow> (Inr ret, st')
      | (Inr None, st') \<Rightarrow> (Inr ''object'', st'))"

section \<open>method.py: the overloads of a method\<close>

text \<open>
  A Python \<open>dict\<close> keeps its keys in insertion order; storing under a key that is present
  keeps the key's place. \<open>dict.fromkeys(keys)\<close> stores \<open>None\<close> under each key in turn.
\<close>

fun dict_setitem :: "('k \<times> 'v) list \<Rightarrow> 'k \<Rightarrow> 'v \<Rightarrow> ('k \<times> 'v) list" where
  "dict_setitem [] k v = [(k, v)]"
| "dict_setitem (p # ps) k v = (if fst p = k then (k, v) # ps else p # dict_setitem ps k v)"

definition dict_fromkeys :: "'k list \<Rightarrow> ('k \<times> unit) list" where
  "dict_fromkeys ks = foldl (\<lambda>d k. dict_setitem d k ()) [] ks"

text \<open>
  Lines 80 and 81 of \<open>genMethod\<close>: the \<open>signatures\<close> handed to \<open>convertMethodToStr\<close>, from
  \<open>allSignatures\<close> and the rendering \<open>str\<close> of a signature.
\<close>

definition genMethod_signatures :: "('sig \<Rightarrow> string) \<Rightarrow> 'sig list \<Rightarrow> string list" where
  "genMethod_signatures str allSignatures = map fst (dict_fromkeys (map str allSignatures))"

text \<open>
  The spec's words for the merged signature set: going through the candidates in discovery
  order, a rendering not seen before is kept where it stands, one seen before is dropped.
\<close>

fun firstSeenWins :: "string list \<Rightarrow> string list \<Rightarrow> string list" where
  "firstSeenWins seen [] = []"
| "firstSeenWins seen (x # xs) =
     (if x \<in> set seen then firstSeenWins seen xs else x # firstSeenWins (x # seen) xs)"

section \<open>The resolver order of section 4.2 of the spec\<close>

text \<open>
  The dispatch as section 4.2 of the spec orders it: literal rules, foreign-object-builder
  rules, domain-object rules (step 4, with the named factory functions), GUI-toolkit
  wrapper rules (step 5), method-call rules (step 6), fallback.
\<close>

primrec getExpressionType_spec_4_2 :: "nat \<Rightarrow> helpers \<Rightarrow> converter \<Rightarrow> resolve" where
  "getExpressionType_spec_4_2 0 env self = (\<lambda>st varText endPos onlyLiteral. (Inl RecursionError, st))"
| "getExpressionType_spec_4_2 (Suc depth) env self = (\<lambda>st varText endPos onlyLiteral.
     (let sw = removeSuffix (removePrefixes varText);
          rec = getExpressionType_spec_4_2 depth env self
      in firstResult
           [\<lambda>st. matchLiterals st sw onlyLiteral,
            \<lambda>st. matchPyType rec env st sw endPos onlyLiteral,
            \<lambda>st. matchSpecial st sw,
            \<lambda>st. matchFreeCAD rec env st sw endPos,
            \<lambda>st. matchQt env st sw,
            \<lambda>st. matchMethodCall rec env self st sw endPos,
            \<lambda>st. matchFinalPossibilities rec env self st sw endPos onlyLiteral] st))"

text \<open>"First non-null result wins" for two resolvers run from the same required imports.\<close>

definition orElse :: "RetType option res \<Rightarrow> RetType option res \<Rightarrow> RetType option res" where
  "orElse a b = (case a of (Inr None, st) \<Rightarrow> b | _ \<Rightarrow> a)"

section \<open>An instance of the parameters\<close>

text \<open>
  Modelled from the spec: the scanner and the class registry are not among the source
  files. For evaluating the model on concrete inputs, \<open>sample_genFuncArgs\<close> splits the
  arguments of the first call at the commas outside brackets (section 2, "balanced-delimiter
  splitting"), and the registry is a table from native class names to \<open>Module.Class\<close> names
  (section 4.3), with the class the text after the last dot and the module the text before
  it. The regex matches of the instance are empty; a theorem's witness sets the ones it
  needs.
\<close>

fun splitArgs :: "nat \<Rightarrow> string \<Rightarrow> string \<Rightarrow> string list" where
  "splitArgs d acc [] = [rev acc]"
| "splitArgs d acc (c # cs) =
     (if c = CHR ''('' then splitArgs (Suc d) (c # acc) cs
      else if c = CHR '')'' then
        (case d of 0 \<Rightarrow> [rev acc] | Suc d' \<Rightarrow> splitArgs d' (c # acc) cs)
      else if c = CHR '','' \<and> d = 0 then rev acc # splitArgs 0 [] cs
      else splitArgs d (c # acc) cs)"

definition sample_genFuncArgs :: "string \<Rightarrow> string list" where
  "sample_genFuncArgs s = (if CHR ''('' \<in> set s then splitArgs 0 [] (afterFirst CHR ''('' s) else [])"

definition sample_registry :: "(string \<times> string) list" where
  "sample_registry =
     [(''VectorPy'', ''FreeCAD.Vector''),
      (''ShapePy'', ''Part.Shape''),
      (''PropertyComplexGeoData'', ''App.PropertyComplexGeoData''),
      (''PropertyComplexGeoDataPy'', ''App.PropertyComplexGeoData'')]"

definition sample_getModuleName :: "string \<Rightarrow> string option" where
  "sample_getModuleName s =
     (if CHR ''.'' \<in> set s then Some (rev (tl (dropWhile (\<lambda>x. x \<noteq> CHR ''.'') (rev s)))) else None)"

definition sampleHelpers :: helpers where
  "sampleHelpers =
     \<lparr> genFuncArgs = sample_genFuncArgs,
       generateExpressionUntilChar = splitArgs 0 [],
       removeQuote = (\<lambda>s. removesuffix (removeprefix s [CHR 0x22]) [CHR 0x22]),
       parsePyBuildValues = (\<lambda>s. AnyValue),
       getClassWithModulesFromPointer =
         (\<lambda>s. case map_of sample_registry s of Some c \<Rightarrow> c | None \<Rightarrow> s),
       getClassName = afterLast CHR ''.'',
       getModuleName = sample_getModuleName,
       strAnyValue = ''typing.Any'',
       strUnionArgument = join '' | '',
       anyValueIsItsValue = True,
       variableDecFinditer = (\<lambda>name body endPos. []),
       assignmentFinditer = (\<lambda>name body startPos endPos. []),
       returnFinditer = (\<lambda>body. []),
       getInnerType = (\<lambda>rec st varType variableName decStartPos decEndPos endPos. (Inr (Str varType), st)),
       UnionArguments = (\<lambda>rs. OrderedStrSet (map (\<lambda>r. case r of Str s \<Rightarrow> s | _ \<Rightarrow> ''typing.Any'') rs)),
       unionImports = (\<lambda>rs. []),
       RawRepr = (\<lambda>xs. if xs = [] then None else Some (join '' | '' xs)) \<rparr>"

definition sampleConverter :: converter where
  "sampleConverter =
     \<lparr> functionBody = ''return Py::Vector(v)->c_str();'',
       classNameWithModule = ''FreeCAD.Vector'',
       functionName = ''getName'' \<rparr>"

text \<open>
  A function body with two declarations of \<open>x\<close> before its \<open>return\<close>, and the three matches
  the declaration regex has in it up to the end of the return statement: \<open>int x;\<close>,
  \<open>Py::Float x(1.0);\<close> and the return statement itself, where the regex takes \<open>return\<close> for
  the type.
\<close>

definition twoDeclarations :: converter where
  "twoDeclarations = sampleConverter\<lparr>functionBody := ''int x; Py::Float x(1.0); return x;''\<rparr>"

definition firstDeclaration :: decMatch where
  "firstDeclaration =
     \<lparr> m_directive = None, m_type = Some ''int'', m_val = None, m_args = None,
       m_start = 0, m_end = 6 \<rparr>"

definition secondDeclaration :: decMatch where
  "secondDeclaration =
     \<lparr> m_directive = None, m_type = Some ''Py::Float'', m_val = None, m_args = Some ''1.0'',
       m_start = 6, m_end = 24 \<rparr>"

definition returnStatement :: decMatch where
  "returnStatement =
     \<lparr> m_directive = None, m_type = Some ''return'', m_val = None, m_args = None,
       m_start = 24, m_end = 34 \<rparr>"

definition twoDeclarationsHelpers :: helpers where
  "twoDeclarationsHelpers =
     sampleHelpers\<lparr>variableDecFinditer :=
       \<lambda>name body endPos. [firstDeclaration, secondDeclaration, returnStatement]\<rparr>"

text \<open>
  A function body that declares \<open>r\<close> as \<open>Py_None\<close> and assigns to it twice, with the match of
  its declaration and the right-hand sides the assignment regex finds after it.
\<close>

definition noneThenAssigned :: converter where
  "noneThenAssigned = sampleConverter\<lparr>functionBody :=
     ''PyObject* r = Py_None; if (a) r = PyFloat_FromDouble(1.0); else r = PyLong_FromLong(2); return r;''\<rparr>"

definition noneDeclaration :: decMatch where
  "noneDeclaration =
     \<lparr> m_directive = None, m_type = Some ''PyObject*'', m_val = Some ''Py_None'', m_args = None,
       m_start = 0, m_end = 22 \<rparr>"

definition noneThenAssignedHelpers :: helpers where
  "noneThenAssignedHelpers =
     sampleHelpers\<lparr>assignmentFinditer :=
       \<lambda>name body startPos endPos. [''PyFloat_FromDouble(1.0)'', ''PyLong_FromLong(2)'']\<rparr>"

section \<open>Sentinel expressions\<close>

lemma sentinels_normal:
  "list_all (\<lambda>s. removeSuffix (removePrefixes s) = s) [''0'', ''-1'', ''NULL'', ''nullptr'', ''0L'']"
  by code_simp

text \<open>
  Claim C2. For each of the fragments \<open>0\<close>, \<open>-1\<close>, \<open>NULL\<close>, \<open>nullptr\<close> and \<open>0L\<close>,
  \<open>getExpressionType\<close> raises \<open>InvalidReturnType\<close> when \<open>onlyLiteral\<close> is false and returns
  \<open>AnyValue\<close> when it is true; the required imports stay as they were. One call frame is
  all it takes.
\<close>

theorem sentinel_literals:
  "varText \<in> set [''0'', ''-1'', ''NULL'', ''nullptr'', ''0L''] \<Longrightarrow>
     getExpressionType (Suc depth) env self st varText endPos False = (Inl InvalidReturnType, st)
     \<and> getExpressionType (Suc depth) env self st varText endPos True = (Inr AnyValue, st)"
proof -
  assume a: "varText \<in> set [''0'', ''-1'', ''NULL'', ''nullptr'', ''0L'']"
  then have ne: "varText \<noteq> []" by auto
  from a sentinels_normal have n: "removeSuffix (removePrefixes varText) = varText"
    unfolding list_all_iff by blast
  have l1: "matchLiterals st varText False = (Inl InvalidReturnType, st)"
    using a ne unfolding matchLiterals_def by simp
  have l2: "matchLiterals st varText True = (Inr (Some AnyValue), st)"
    using a ne unfolding matchLiterals_def by simp
  show ?thesis by (simp add: n l1 l2 Let_def)
qed

theorem sentinel_literals_witness:
  "getExpressionType 1 sampleHelpers sampleConverter [] ''nullptr'' 7 False = (Inl InvalidReturnType, [])
   \<and> getExpressionType 1 sampleHelpers sampleConverter [] ''nullptr'' 7 True = (Inr AnyValue, [])"
  using sentinel_literals [of "''nullptr''" 0 sampleHelpers sampleConverter "[]" 7] by simp

section \<open>Tuple packs\<close>

lemma shadow_normal:
  "removeSuffix (removePrefixes ''PyTuple_Pack(1, Py_True)'') = ''PyTuple_Pack(1, Py_True)''"
  by code_simp

lemma shadow_pytype:
  "matchPyType rec env st ''PyTuple_Pack(1, Py_True)'' endPos onlyLiteral
     = (Inr (Some (Str ''bool'')), st)"
proof -
  have c: "\<not> startswithAny ''PyTuple_Pack(1, Py_True)''
              [''Py::Boolean'', ''PyBool_From'', ''Py::True'', ''Py::False'']"
    "\<not> startswithAny ''PyTuple_Pack(1, Py_True)''
          [''Py::Long'', ''PyLong_From'', ''Py::Int'', ''PyInt_From'', ''PYINT_FROMLONG'', ''int'']"
    "\<not> startswithAny ''PyTuple_Pack(1, Py_True)'' [''Py::Float'', ''PyFloat_From'']"
    "\<not> startswithAny ''PyTuple_Pack(1, Py_True)'' [''Py::List'', ''PyList_New'']"
    "\<not> startswithAny ''PyTuple_Pack(1, Py_True)'' [''Py::Dict'', ''PyDict_New'']"
    "\<not> startswith ''PyTuple_Pack(1, Py_True)'' ''Py::Callable''"
    "\<not> startswith ''PyTuple_Pack(1, Py_True)'' ''PyByteArray_From''"
    "\<not> startswithAny ''PyTuple_Pack(1, Py_True)''
          [''Py::String'', ''PyString_From'', ''PyUnicode_From'', ''Py::Char'',
           ''PyUnicode_DecodeUTF8'', ''PYSTRING_FROMSTRING'', ''QString'']"
    "containsAny ''PyTuple_Pack(1, Py_True)'' [''Py_True'', ''Py_False'']"
    "''PyTuple_Pack(1, Py_True)'' \<noteq> ''Py::Object()''"
    "''PyTuple_Pack(1, Py_True)'' \<notin> set [''Py_None'', ''Py::None()'', ''Py_Return'']"
    by code_simp+
  show ?thesis unfolding matchPyType_def found_def using c by simp
qed

text \<open>
  Claim C4 says that a \<open>PyTuple_Pack\<close> expression with N packed sub-expressions resolves to
  a tuple type with N inner types. In \<open>_matchPyType\<close> the case
  \<open>StrWrapper(contain='Py_True' | 'Py_False')\<close> stands before the \<open>PyTuple_Pack\<close> case, so a
  pack that holds \<open>Py_True\<close> or \<open>Py_False\<close> never reaches it: \<open>PyTuple_Pack(1, Py_True)\<close>
  resolves to \<open>bool\<close>, whatever the scanner and the registry are, and not to a tuple type.
\<close>

theorem PyTuple_Pack_shadowed:
  "getExpressionType (Suc depth) env self st ''PyTuple_Pack(1, Py_True)'' endPos onlyLiteral
     = (Inr (Str ''bool''), st)"
proof -
  have l: "matchLiterals st ''PyTuple_Pack(1, Py_True)'' onlyLiteral = (Inr None, st)"
    unfolding matchLiterals_def by simp
  show ?thesis by (simp add: Let_def shadow_normal l shadow_pytype)
qed

section \<open>The overload set of a method\<close>

lemma firstSeenWins_cong: "set a = set b \<Longrightarrow> firstSeenWins a xs = firstSeenWins b xs"
proof (induction xs arbitrary: a b)
  case Nil
  show ?case by simp
next
  case (Cons x xs)
  have m: "(x \<in> set a) = (x \<in> set b)" using Cons.prems by simp
  have s: "set (x # a) = set (x # b)" using Cons.prems by simp
  have 1: "firstSeenWins a xs = firstSeenWins b xs" using Cons.prems by (rule Cons.IH)
  have 2: "firstSeenWins (x # a) xs = firstSeenWins (x # b) xs" using s by (rule Cons.IH)
  show ?case by (simp only: firstSeenWins.simps m 1 2)
qed

lemma keys_dict_setitem:
  "map fst (dict_setitem d k v) = (if k \<in> set (map fst d) then map fst d else map fst d @ [k])"
  by (induction d) auto

lemma keys_foldl_setitem:
  "map fst (foldl (\<lambda>d k. dict_setitem d k ()) d ks) = map fst d @ firstSeenWins (map fst d) ks"
proof (induction ks arbitrary: d)
  case Nil
  then show ?case by simp
next
  case (Cons k ks)
  show ?case
  proof (cases "k \<in> set (map fst d)")
    case True
    then show ?thesis using Cons [of "dict_setitem d k ()"] by (simp add: keys_dict_setitem)
  next
    case False
    have "firstSeenWins (map fst d @ [k]) ks = firstSeenWins (k # map fst d) ks"
      by (rule firstSeenWins_cong) auto
    then show ?thesis using False Cons [of "dict_setitem d k ()"] by (simp add: keys_dict_setitem)
  qed
qed

lemma firstSeenWins_set: "set (firstSeenWins seen xs) = set xs - set seen"
  by (induction xs arbitrary: seen) auto

lemma firstSeenWins_distinct: "distinct (firstSeenWins seen xs)"
  by (induction xs arbitrary: seen) (auto simp: firstSeenWins_set)

text \<open>
  Claim C9. The signatures \<open>genMethod\<close> hands on are the renderings of all candidates with
  first-seen-wins: going through them in discovery order, the first occurrence of a
  rendering is kept where it stands and every later one is dropped. So no rendering is
  left twice and none is lost.
\<close>

theorem genMethod_first_seen_wins:
  "genMethod_signatures str allSignatures = firstSeenWins [] (map str allSignatures)
   \<and> distinct (genMethod_signatures str allSignatures)
   \<and> set (genMethod_signatures str allSignatures) = str ` set allSignatures"
  by (simp add: genMethod_signatures_def dict_fromkeys_def keys_foldl_setitem
      firstSeenWins_distinct firstSeenWins_set)

section \<open>The class registry\<close>

lemma three_geometry_classes:
  "mkUnionArgument [''Mesh.MeshObject'', ''Part.Shape'', ''Points.PointKernel'']
     = UnionArgument [''Mesh.MeshObject'', ''Part.Shape'', ''Points.PointKernel'']"
  by code_simp

text \<open>
  Claim C5. When the class that \<open>_findClassWithModule\<close> finds in the text is the class being
  generated, the result is the current class's own module-qualified name and the required
  imports are what they were: no import of the own module is recorded.
\<close>

theorem self_reference_records_no_import:
  "getClassName env (classWithModuleOf env text) = className env self \<Longrightarrow>
     findClassWithModule env self st text mustDiffer = (Inr (Str (classNameWithModule self)), st)"
  by (simp add: findClassWithModule_def Let_def)

theorem self_reference_records_no_import_witness:
  "getClassName sampleHelpers (classWithModuleOf sampleHelpers ''new VectorPy(v)'')
     = className sampleHelpers sampleConverter
   \<and> findClassWithModule sampleHelpers sampleConverter [''Part''] ''new VectorPy(v)'' []
     = (Inr (Str ''FreeCAD.Vector''), [''Part''])"
proof -
  have h: "getClassName sampleHelpers (classWithModuleOf sampleHelpers ''new VectorPy(v)'')
     = className sampleHelpers sampleConverter"
    by code_simp
  have c: "classNameWithModule sampleConverter = ''FreeCAD.Vector''"
    by (simp add: sampleConverter_def)
  show ?thesis
    using h self_reference_records_no_import [OF h, of "[''Part'']" "[]"] by (simp add: c)
qed

text \<open>
  Claim C6 says that a construction expression that resolves to \<open>PropertyComplexGeoData\<close>
  always gives the union of the three geometry classes. The case \<open>self.className\<close> stands
  first in \<open>_findClassWithModule\<close>: while \<open>PropertyComplexGeoData\<close> itself is the class being
  generated, the result is its own qualified name (as claim C5 has it), not the union.
\<close>

theorem geometry_base_self_reference_counterexample:
  "getClassName sampleHelpers (classWithModuleOf sampleHelpers ''new PropertyComplexGeoData()'')
     = ''PropertyComplexGeoData''
   \<and> findClassWithModule sampleHelpers
        (sampleConverter\<lparr>classNameWithModule := ''App.PropertyComplexGeoData''\<rparr>) []
        ''new PropertyComplexGeoData()'' []
     = (Inr (Str ''App.PropertyComplexGeoData''), [])
   \<and> Str ''App.PropertyComplexGeoData''
     \<noteq> mkUnionArgument [''Mesh.MeshObject'', ''Part.Shape'', ''Points.PointKernel'']"
  by code_simp

text \<open>
  Claim C6, amended. When the construction expression resolves to
  \<open>PropertyComplexGeoData\<close> and that is not the class being generated, the result is the
  union of exactly \<open>Mesh.MeshObject\<close>, \<open>Part.Shape\<close> and \<open>Points.PointKernel\<close>, in this order,
  and the required imports are unchanged.
\<close>

theorem geometry_base_union:
  "getClassName env (classWithModuleOf env text) = ''PropertyComplexGeoData'' \<Longrightarrow>
   className env self \<noteq> ''PropertyComplexGeoData'' \<Longrightarrow>
     findClassWithModule env self st text mustDiffer
       = (Inr (UnionArgument [''Mesh.MeshObject'', ''Part.Shape'', ''Points.PointKernel'']), st)"
  by (simp add: findClassWithModule_def Let_def three_geometry_classes)

theorem geometry_base_union_witness:
  "getClassName sampleHelpers (classWithModuleOf sampleHelpers ''new PropertyComplexGeoData()'')
     = ''PropertyComplexGeoData''
   \<and> className sampleHelpers sampleConverter \<noteq> ''PropertyComplexGeoData''
   \<and> findClassWithModule sampleHelpers sampleConverter [] ''new PropertyComplexGeoData()'' []
       = (Inr (UnionArgument [''Mesh.MeshObject'', ''Part.Shape'', ''Points.PointKernel'']), [])"
proof -
  have h1: "getClassName sampleHelpers (classWithModuleOf sampleHelpers ''new PropertyComplexGeoData()'')
     = ''PropertyComplexGeoData''"
    by code_simp
  have h2: "className sampleHelpers sampleConverter \<noteq> ''PropertyComplexGeoData''"
    by code_simp
  show ?thesis using h1 h2 geometry_base_union [OF h1 h2, of "[]" "[]"] by simp
qed

section \<open>The return type of a function body\<close>

lemma sentinel_raises:
  "varText \<in> set [''0'', ''-1'', ''NULL'', ''nullptr'', ''0L''] \<Longrightarrow>
     getExpressionType (Suc depth) env self st varText endPos False = (Inl InvalidReturnType, st)"
proof -
  assume a: "varText \<in> set [''0'', ''-1'', ''NULL'', ''nullptr'', ''0L'']"
  then have ne: "varText \<noteq> []" by auto
  from a sentinels_normal have n: "removeSuffix (removePrefixes varText) = varText"
    unfolding list_all_iff by blast
  have l1: "matchLiterals st varText False = (Inl InvalidReturnType, st)"
    using a ne unfolding matchLiterals_def by simp
  show ?thesis by (simp add: n l1 Let_def)
qed

lemma genReturnType_not_invalid: "fst (genReturnType rec st ms) \<noteq> Inl InvalidReturnType"
proof (induction ms arbitrary: st)
  case Nil
  show ?case by simp
next
  case (Cons m ms)
  obtain r st' where r: "rec st (fst m) (snd m) False = (r, st')" by (cases "rec st (fst m) (snd m) False")
  show ?case
  proof (cases r)
    case (Inl e)
    then show ?thesis using r Cons [of st'] by simp
  next
    case (Inr retType)
    obtain q st'' where q: "genReturnType rec st' ms = (q, st'')" by (cases "genReturnType rec st' ms")
    then show ?thesis using r Inr Cons [of st'] by (cases q) auto
  qed
qed

lemma genReturnType_all_skipped:
  "\<forall>m\<in>set ms. \<forall>st'. fst (rec st' (fst m) (snd m) False) = Inl InvalidReturnType \<Longrightarrow>
     fst (genReturnType rec st ms) = Inr []"
proof (induction ms arbitrary: st)
  case Nil
  show ?case by simp
next
  case (Cons m ms)
  obtain r st' where r: "rec st (fst m) (snd m) False = (r, st')" by (cases "rec st (fst m) (snd m) False")
  have "fst (rec st (fst m) (snd m) False) = Inl InvalidReturnType" using Cons.prems by simp
  then have i: "r = Inl InvalidReturnType" using r by simp
  have "fst (genReturnType rec st' ms) = Inr []" using Cons.prems by (intro Cons.IH) simp
  then show ?case using r i by simp
qed

text \<open>
  Claim C3. In the loop over the return statements of a function body, a statement whose
  resolution raises \<open>InvalidReturnType\<close> contributes no type and the scan goes on with the
  statements after it (from the required imports the failed resolution left); and
  \<open>getReturnType\<close> never raises \<open>InvalidReturnType\<close>.
\<close>

theorem invalid_return_skipped:
  "(fst (rec st text e False) = Inl InvalidReturnType \<longrightarrow>
      genReturnType rec st ((text, e) # ms) = genReturnType rec (snd (rec st text e False)) ms)
   \<and> fst (getReturnType depth env self st) \<noteq> Inl InvalidReturnType"
proof -
  have a: "fst (rec st text e False) = Inl InvalidReturnType \<longrightarrow>
      genReturnType rec st ((text, e) # ms) = genReturnType rec (snd (rec st text e False)) ms"
    by (cases "rec st text e False") auto
  obtain q st' where q: "genReturnType (getExpressionType depth env self) st
      (returnFinditer env (functionBody self)) = (q, st')"
    by (cases "genReturnType (getExpressionType depth env self) st (returnFinditer env (functionBody self))")
  have "q \<noteq> Inl InvalidReturnType"
    using genReturnType_not_invalid [of "getExpressionType depth env self" st
        "returnFinditer env (functionBody self)"] q by simp
  then have b: "fst (getReturnType depth env self st) \<noteq> Inl InvalidReturnType"
    unfolding getReturnType_def using q by (cases q) auto
  from a b show ?thesis by simp
qed

lemma float_return:
  "genReturnType (getExpressionType 1 sampleHelpers sampleConverter) [] [(''Py::Float(x)'', 30)]
     = (Inr [Str ''float''], [])"
  by code_simp

theorem invalid_return_skipped_witness:
  "fst (getExpressionType 1 sampleHelpers sampleConverter [] ''NULL'' 12 False) = Inl InvalidReturnType
   \<and> genReturnType (getExpressionType 1 sampleHelpers sampleConverter) []
        [(''NULL'', 12), (''Py::Float(x)'', 30)] = (Inr [Str ''float''], [])
   \<and> fst (getReturnType 1 sampleHelpers sampleConverter []) \<noteq> Inl InvalidReturnType"
proof -
  have h: "getExpressionType 1 sampleHelpers sampleConverter [] ''NULL'' 12 False
             = (Inl InvalidReturnType, [])"
    using sentinel_raises [of "''NULL''" 0] by simp
  show ?thesis
    using invalid_return_skipped [of "getExpressionType 1 sampleHelpers sampleConverter" "[]"
        "''NULL''" 12 "[(''Py::Float(x)'', 30)]" 1 sampleHelpers sampleConverter]
    by (simp only: h fst_conv snd_conv float_return simp_thms)
qed

text \<open>
  Claim C10. When every return statement of the function body is skipped (its resolution
  raises \<open>InvalidReturnType\<close>) or there is none, and the type built from no return types is
  the empty one (\<open>RawRepr\<close> of no items is \<open>Signature.empty\<close>), \<open>getStrReturnType\<close> returns the
  string \<open>object\<close>.
\<close>

theorem no_return_type_gives_object:
  assumes "\<forall>m\<in>set (returnFinditer env (functionBody self)).
             \<forall>st'. fst (getExpressionType depth env self st' (fst m) (snd m) False) = Inl InvalidReturnType"
    and "RawRepr env (UnionArguments env []) = None"
  shows "fst (getStrReturnType depth env self st) = Inr ''object''"
proof -
  obtain q st' where q: "genReturnType (getExpressionType depth env self) st
      (returnFinditer env (functionBody self)) = (q, st')"
    by (cases "genReturnType (getExpressionType depth env self) st (returnFinditer env (functionBody self))")
  have "fst (genReturnType (getExpressionType depth env self) st
      (returnFinditer env (functionBody self))) = Inr []"
    using assms(1) by (rule genReturnType_all_skipped)
  then have "q = Inr []" using q by simp
  then show ?thesis unfolding getStrReturnType_def getReturnType_def using q assms(2) by simp
qed

theorem no_return_type_gives_object_witness:
  "returnFinditer (sampleHelpers\<lparr>returnFinditer := \<lambda>body. [(''NULL'', 27), (''0'', 37)]\<rparr>)
       (functionBody (sampleConverter\<lparr>functionBody := ''if (!obj) return NULL; return 0;''\<rparr>))
     = [(''NULL'', 27), (''0'', 37)]
   \<and> fst (getStrReturnType 1 (sampleHelpers\<lparr>returnFinditer := \<lambda>body. [(''NULL'', 27), (''0'', 37)]\<rparr>)
        (sampleConverter\<lparr>functionBody := ''if (!obj) return NULL; return 0;''\<rparr>) []) = Inr ''object''"
proof -
  let ?E = "sampleHelpers\<lparr>returnFinditer := \<lambda>body. [(''NULL'', 27), (''0'', 37)]\<rparr>"
  let ?S = "sampleConverter\<lparr>functionBody := ''if (!obj) return NULL; return 0;''\<rparr>"
  have h1: "\<forall>m\<in>set (returnFinditer ?E (functionBody ?S)).
             \<forall>st'. fst (getExpressionType 1 ?E ?S st' (fst m) (snd m) False) = Inl InvalidReturnType"
    using sentinel_raises [of "''NULL''" 0 ?E ?S] sentinel_raises [of "''0''" 0 ?E ?S] by simp
  have h2: "RawRepr ?E (UnionArguments ?E []) = None"
    by (simp add: sampleHelpers_def OrderedStrSet_def)
  show ?thesis using no_return_type_gives_object [OF h1 h2, of "[]"] by simp
qed

section \<open>The variable-type search\<close>

lemma findVariableTypeLoop_skips:
  "list_all (\<lambda>d. truthy (m_directive d) \<or> \<not> truthy (extractTypeFromMatch d)) xs \<Longrightarrow>
     findVariableTypeLoop rec env self st variableName endPos (xs @ ys)
       = findVariableTypeLoop rec env self st variableName endPos ys"
  by (induction xs) auto

text \<open>
  Claim C7. Among the matches of the declaration regex before the use site, the variable-type
  search uses the latest one that is a declaration or assignment, that is, the latest one
  the loop does not skip (it skips preprocessor directives and matches whose type text is
  empty, \<open>return\<close> or \<open>else\<close>, such as the return statement under analysis). The result is
  what the body of the loop gives for that match; the matches before it play no part, so
  of two declarations of a name the later one decides.
\<close>

theorem latest_declaration_wins:
  assumes "variableName \<noteq> ''this''"
    and "variableDecFinditer env variableName (functionBody self) endPos = earlier @ m # later"
    and "\<not> truthy (m_directive m)"
    and "truthy (extractTypeFromMatch m)"
    and "list_all (\<lambda>d. truthy (m_directive d) \<or> \<not> truthy (extractTypeFromMatch d)) later"
  shows "findVariableType rec env self st variableName endPos
           = typeOfDeclaration rec env self st variableName endPos m (the (extractTypeFromMatch m))"
proof -
  have r: "rev (earlier @ m # later) = rev later @ m # rev earlier" by simp
  have s: "list_all (\<lambda>d. truthy (m_directive d) \<or> \<not> truthy (extractTypeFromMatch d)) (rev later)"
    using assms(5) by (simp add: list_all_iff)
  show ?thesis
    unfolding findVariableType_def
    using assms(1,3,4) by (simp add: assms(2) r findVariableTypeLoop_skips [OF s] del: rev_append rev.simps)
qed

lemma secondDeclaration_type:
  "typeOfDeclaration (getExpressionType 1 twoDeclarationsHelpers twoDeclarations)
      twoDeclarationsHelpers twoDeclarations [] ''x'' 34 secondDeclaration
      (the (extractTypeFromMatch secondDeclaration)) = (Inr (Str ''float''), [])"
  by code_simp

theorem latest_declaration_wins_witness:
  "variableDecFinditer twoDeclarationsHelpers ''x'' (functionBody twoDeclarations) 34
     = [firstDeclaration] @ secondDeclaration # [returnStatement]
   \<and> truthy (extractTypeFromMatch firstDeclaration)
   \<and> truthy (extractTypeFromMatch secondDeclaration)
   \<and> findVariableType (getExpressionType 1 twoDeclarationsHelpers twoDeclarations)
        twoDeclarationsHelpers twoDeclarations [] ''x'' 34 = (Inr (Str ''float''), [])"
proof -
  have h1: "''x'' \<noteq> ''this''" by simp
  have h2: "variableDecFinditer twoDeclarationsHelpers ''x'' (functionBody twoDeclarations) 34
     = [firstDeclaration] @ secondDeclaration # [returnStatement]"
    by (simp add: twoDeclarationsHelpers_def)
  have h3: "\<not> truthy (m_directive secondDeclaration)" by (simp add: secondDeclaration_def)
  have h4: "truthy (extractTypeFromMatch secondDeclaration)" by code_simp
  have h5: "list_all (\<lambda>d. truthy (m_directive d) \<or> \<not> truthy (extractTypeFromMatch d)) [returnStatement]"
    by code_simp
  have h6: "truthy (extractTypeFromMatch firstDeclaration)" by code_simp
  show ?thesis
    using latest_declaration_wins [OF h1 h2 h3 h4 h5,
        of "getExpressionType 1 twoDeclarationsHelpers twoDeclarations" "[]"]
    by (simp only: h2 h4 h6 secondDeclaration_type simp_thms)
qed

section \<open>Unions\<close>

lemma foldl_ordered_add:
  "foldl ordered_add acc xs = acc @ firstSeenWins acc xs"
proof (induction xs arbitrary: acc)
  case Nil
  show ?case by simp
next
  case (Cons x xs)
  show ?case
  proof (cases "x \<in> set acc")
    case True
    then show ?thesis using Cons [of acc] by (simp add: ordered_add_def)
  next
    case False
    have "firstSeenWins (acc @ [x]) xs = firstSeenWins (x # acc) xs"
      by (rule firstSeenWins_cong) auto
    then show ?thesis using False Cons [of "acc @ [x]"] by (simp add: ordered_add_def)
  qed
qed

lemma OrderedStrSet_firstSeenWins: "OrderedStrSet xs = firstSeenWins [] xs"
  by (simp add: OrderedStrSet_def foldl_ordered_add)

lemma OrderedStrSet_nonempty: "ys \<noteq> [] \<Longrightarrow> OrderedStrSet ys \<noteq> []"
  by (cases ys) (simp_all add: OrderedStrSet_firstSeenWins)

lemma OrderedStrSet_snoc: "OrderedStrSet (ys @ [y]) = ordered_add (OrderedStrSet ys) y"
  by (simp add: OrderedStrSet_def)

lemma OrderedStrSet_set: "set (OrderedStrSet xs) = set xs"
  by (simp add: OrderedStrSet_firstSeenWins firstSeenWins_set)

text \<open>
  Claim C8. Building a union collapses duplicates and keeps the order of first insertion: it
  is the first-seen-wins filter of the items, so the union of A, B, A is the union of A, B.
  And when the variable-type search finds the declared type \<open>None\<close> and the assignments
  after the declaration yield the types \<open>ys\<close> (at least one), the result is the union of
  \<open>ys\<close> with \<open>None\<close> added: every type of \<open>ys\<close> is still there, in its place, and \<open>None\<close> is a
  member beside them.
\<close>

theorem union_keeps_order_and_folds_None:
  "mkUnionArgument xs = UnionArgument (firstSeenWins [] xs)
   \<and> mkUnionArgument [a, b, a] = mkUnionArgument [a, b]
   \<and> (declaredType rec env st endPos dm varTypeDec = (Inr (Str ''None''), st1) \<longrightarrow>
      genVariableTypeFromRegex rec st1
          (assignmentFinditer env variableName (functionBody self) (m_end dm) endPos) endPos False
        = (Inr ys, st2) \<longrightarrow>
      ys \<noteq> [] \<longrightarrow>
        typeOfDeclaration rec env self st variableName endPos dm varTypeDec
          = (Inr (mkUnionArgument (ys @ [''None''])), st2)
        \<and> set (OrderedStrSet (ys @ [''None''])) = set ys \<union> {''None''}
        \<and> prefix (OrderedStrSet ys) (OrderedStrSet (ys @ [''None''])))"
proof -
  have 1: "mkUnionArgument xs = UnionArgument (firstSeenWins [] xs)"
    by (simp add: mkUnionArgument_def OrderedStrSet_firstSeenWins)
  have 2: "mkUnionArgument [a, b, a] = mkUnionArgument [a, b]"
    by (simp add: mkUnionArgument_def OrderedStrSet_firstSeenWins)
  have 3: "typeOfDeclaration rec env self st variableName endPos dm varTypeDec
          = (Inr (mkUnionArgument (ys @ [''None''])), st2)"
    if d: "declaredType rec env st endPos dm varTypeDec = (Inr (Str ''None''), st1)"
      and g: "genVariableTypeFromRegex rec st1
          (assignmentFinditer env variableName (functionBody self) (m_end dm) endPos) endPos False
        = (Inr ys, st2)"
      and n: "ys \<noteq> []"
  proof -
    have a: "getRetTypeFromAssignment rec env self st1 variableName (m_end dm) endPos
               = (Inr (mkUnionArgument ys), st2)"
      unfolding getRetTypeFromAssignment_def using g OrderedStrSet_nonempty [OF n] by simp
    show ?thesis
      unfolding typeOfDeclaration_def
      by (simp add: d a mkUnionArgument_def OrderedStrSet_snoc)
  qed
  have 4: "set (OrderedStrSet (ys @ [''None''])) = set ys \<union> {''None''}"
    by (simp add: OrderedStrSet_set)
  have 5: "prefix (OrderedStrSet ys) (OrderedStrSet (ys @ [''None'']))"
    by (simp add: OrderedStrSet_snoc ordered_add_def)
  from 1 2 3 4 5 show ?thesis by blast
qed

lemma noneDeclaration_declared:
  "declaredType (getExpressionType 1 noneThenAssignedHelpers noneThenAssigned) noneThenAssignedHelpers
      [] 97 noneDeclaration ''PyObject'' = (Inr (Str ''None''), [])"
  by code_simp

lemma noneDeclaration_assigned:
  "genVariableTypeFromRegex (getExpressionType 1 noneThenAssignedHelpers noneThenAssigned) []
      (assignmentFinditer noneThenAssignedHelpers ''r'' (functionBody noneThenAssigned)
         (m_end noneDeclaration) 97) 97 False = (Inr [''float'', ''int''], [])"
  by code_simp

lemma noneDeclaration_union: "mkUnionArgument ([''float'', ''int''] @ [''None''])
   = UnionArgument [''float'', ''int'', ''None'']"
  by code_simp

theorem union_keeps_order_and_folds_None_witness:
  "extractTypeFromMatch noneDeclaration = Some ''PyObject''
   \<and> typeOfDeclaration (getExpressionType 1 noneThenAssignedHelpers noneThenAssigned)
        noneThenAssignedHelpers noneThenAssigned [] ''r'' 97 noneDeclaration ''PyObject''
      = (Inr (UnionArgument [''float'', ''int'', ''None'']), [])"
proof -
  have e: "extractTypeFromMatch noneDeclaration = Some ''PyObject''" by code_simp
  have n: "[''float'', ''int''] \<noteq> ([] :: string list)" by simp
  show ?thesis
    using union_keeps_order_and_folds_None [of "[]" "[]" "[]"
        "getExpressionType 1 noneThenAssignedHelpers noneThenAssigned" noneThenAssignedHelpers
        "[]" 97 noneDeclaration "''PyObject''" "[]" "''r''" noneThenAssigned "[''float'', ''int'']" "[]"]
      noneDeclaration_declared noneDeclaration_assigned n e
    by (simp only: noneDeclaration_union simp_thms)
qed

section \<open>The order of the resolvers\<close>

lemma some_not_None: "fst (some r) \<noteq> Inr None"
  by (cases r) (auto simp: some_def split: sum.splits)

lemma found_not_None: "fst (found s st) \<noteq> Inr None"
  by (simp add: found_def)

lemma some_eq_NoneD: "some r = (Inr None, st') \<Longrightarrow> False"
  using some_not_None [of r] by simp

lemma matchLiterals_frame: "matchLiterals st sw ol = (Inr None, st') \<Longrightarrow> st' = st"
  by (auto simp: matchLiterals_def split: if_splits)

lemma matchPyType_frame: "matchPyType rec env st sw endPos ol = (Inr None, st') \<Longrightarrow> st' = st"
  unfolding matchPyType_def found_def
  by (auto split: if_splits prod.splits sum.splits dest: some_eq_NoneD)

lemma matchSpecial_frame: "matchSpecial st sw = (Inr None, st') \<Longrightarrow> st' = st"
  by (auto simp: matchSpecial_def found_def split: if_splits)

lemma matchQt_frame: "matchQt env st sw = (Inr None, st') \<Longrightarrow> st' = st"
  by (auto simp: matchQt_def extractWidget_def found_def Let_def split: if_splits list.splits)

lemma extractPivy_not_None: "extractPivy env st sw = (Inr None, st') \<Longrightarrow> False"
  by (auto simp: extractPivy_def found_def Let_def split: if_splits sum.splits)

lemma matchMethodCall_frame: "matchMethodCall rec env self st sw endPos = (Inr None, st') \<Longrightarrow> st' = st"
  unfolding matchMethodCall_def found_def Let_def
  by (auto split: if_splits list.splits dest: some_eq_NoneD extractPivy_not_None)

lemma matchFreeCAD_frame: "matchFreeCAD rec env st sw endPos = (Inr None, st') \<Longrightarrow> st' = st"
  unfolding matchFreeCAD_def found_def
  by (auto split: if_splits prod.splits sum.splits)

lemma matchFinalPossibilities_not_None:
  "fst (matchFinalPossibilities rec env self st sw endPos ol) \<noteq> Inr None"
  unfolding matchFinalPossibilities_def
  by (simp add: some_not_None found_not_None)

lemma firstResult_Cons:
  assumes "\<And>st'. m st = (Inr None, st') \<Longrightarrow> st' = st"
  shows "some (firstResult (m # ms) st) = orElse (m st) (some (firstResult ms st))"
proof -
  obtain r s where ms: "m st = (r, s)" by (cases "m st")
  show ?thesis
  proof (cases r)
    case (Inl e)
    then show ?thesis using ms by (simp add: some_def orElse_def)
  next
    case (Inr v)
    show ?thesis
    proof (cases v)
      case None
      then have "s = st" using assms ms Inr by simp
      then show ?thesis using ms Inr None by (simp add: orElse_def)
    next
      case (Some x)
      then show ?thesis using ms Inr by (simp add: some_def orElse_def)
    qed
  qed
qed

lemma firstResult_last:
  assumes "fst (m st) \<noteq> Inr None"
  shows "some (firstResult [m] st) = m st"
proof -
  obtain r s where ms: "m st = (r, s)" by (cases "m st")
  show ?thesis
  proof (cases r)
    case (Inl e)
    then show ?thesis using ms by (simp add: some_def)
  next
    case (Inr v)
    then obtain x where "v = Some x" using assms ms by (cases v) auto
    then show ?thesis using ms Inr by (simp add: some_def)
  qed
qed

text \<open>
  Claim C1, amended. \<open>getExpressionType\<close> normalises the fragment and tries its resolvers in
  this order: literal rules, foreign-object-builder rules, the special rules
  (\<open>_matchSpecial\<close>), GUI-toolkit wrapper rules, method-call rules, domain-object rules,
  fallback. The first one whose result is not \<open>None\<close> gives the resolved type (or the
  exception), each being run from the required imports of the call, since a resolver that
  returns \<open>None\<close> leaves them alone; and the fallback never returns \<open>None\<close>.
\<close>

theorem resolver_order:
  "some (getExpressionType (Suc depth) env self st varText endPos onlyLiteral) =
     (let sw = removeSuffix (removePrefixes varText);
          rec = getExpressionType depth env self
      in orElse (matchLiterals st sw onlyLiteral)
        (orElse (matchPyType rec env st sw endPos onlyLiteral)
        (orElse (matchSpecial st sw)
        (orElse (matchQt env st sw)
        (orElse (matchMethodCall rec env self st sw endPos)
        (orElse (matchFreeCAD rec env st sw endPos)
                (matchFinalPossibilities rec env self st sw endPos onlyLiteral)))))))"
  by (simp only: getExpressionType.simps Let_def
      firstResult_Cons [OF matchLiterals_frame] firstResult_Cons [OF matchPyType_frame]
      firstResult_Cons [OF matchSpecial_frame] firstResult_Cons [OF matchQt_frame]
      firstResult_Cons [OF matchMethodCall_frame] firstResult_Cons [OF matchFreeCAD_frame]
      firstResult_last [OF matchFinalPossibilities_not_None])

text \<open>
  Claim C1 puts the domain-object rules (step 4) before the GUI-toolkit wrapper rules and
  the method-call rules (step 6). In \<open>getExpressionType\<close> the method-call rules come first:
  on \<open>Py::Vector(v)->c_str()\<close> neither the literal nor the builder rules match, the
  domain-object rules give \<open>FreeCAD.Vector\<close>, which is the result in the order of section
  4.2, and the code's result is \<open>str\<close>, from the method-call rule for \<open>->c_str()\<close>.
\<close>

theorem resolver_order_counterexample:
  "matchLiterals [] ''Py::Vector(v)->c_str()'' False = (Inr None, [])
   \<and> matchPyType (getExpressionType 0 sampleHelpers sampleConverter) sampleHelpers []
        ''Py::Vector(v)->c_str()'' 30 False = (Inr None, [])
   \<and> matchFreeCAD (getExpressionType 0 sampleHelpers sampleConverter) sampleHelpers []
        ''Py::Vector(v)->c_str()'' 30 = (Inr (Some (Str ''FreeCAD.Vector'')), [])
   \<and> getExpressionType_spec_4_2 1 sampleHelpers sampleConverter []
        ''Py::Vector(v)->c_str()'' 30 False = (Inr (Str ''FreeCAD.Vector''), [])
   \<and> getExpressionType 1 sampleHelpers sampleConverter []
        ''Py::Vector(v)->c_str()'' 30 False = (Inr (Str ''str''), [])"
  by code_simp

end
